theory Spec2Isabelle
  imports Main
begin

section \<open>The packaging manifest \<^verbatim>\<open>setup.py\<close>\<close>

text \<open>
  The repository is one file, \<^verbatim>\<open>setup.py\<close>: an import of \<^verbatim>\<open>setuptools\<close> and one call
  \<^verbatim>\<open>setuptools.setup(...)\<close> with eight keyword arguments. Six arguments are string
  literals, one is a list of string literals and one is the value of the call
  \<^verbatim>\<open>setuptools.find_packages()\<close>.
\<close>

subsection \<open>The argument expressions\<close>

definition name :: string where
  "name = ''audio-speech-to-sign-language-converter''"

definition version :: string where
  "version = ''5.1.0''"

definition description :: string where
  "description = ''Python project''"

definition author :: string where
  "author = ''Anurag Pandey''"

definition author_email :: string where
  "author_email = ''anuragpandey12@gmail.com''"

definition url :: string where
  "url = ''https://github.com/Anurag637/Audio-Speech-To-Sign-Language-Converter.git''"

definition setup_requires :: "string list" where
  "setup_requires = [''nltk'', ''joblib'', ''click'', ''regex'', ''sqlparse'', ''setuptools'']"

text \<open>
  \<^verbatim>\<open>packages=setuptools.find_packages()\<close>: the function belongs to setuptools, not to this
  repository, and reads the directory the build runs in. The list it returns is a
  parameter of the model, passed on unchanged.
\<close>

definition packages :: "string list \<Rightarrow> string list" where
  "packages found = found"

subsection \<open>The call\<close>

text \<open>The values a keyword argument of this call can have.\<close>

datatype pyval = Str string | StrList "string list"

type_synonym kwargs = "(string \<times> pyval) list"

text \<open>The keyword arguments of \<^verbatim>\<open>setuptools.setup(...)\<close>, in the order of the source.\<close>

definition setup_kwargs :: "string list \<Rightarrow> kwargs" where
  "setup_kwargs found =
     [(''name'', Str name),
      (''version'', Str version),
      (''description'', Str description),
      (''author'', Str author),
      (''author_email'', Str author_email),
      (''url'', Str url),
      (''packages'', StrList (packages found)),
      (''setup_requires'', StrList setup_requires)]"

text \<open>
  Python refuses a call that gives the same keyword twice, and does so when it compiles
  the file, before any statement runs. The literals themselves cannot raise.
\<close>

datatype error = RepeatedKeyword string

fun first_repeated :: "string list \<Rightarrow> string option" where
  "first_repeated [] = None"
| "first_repeated (k # ks) = (if k \<in> set ks then Some k else first_repeated ks)"

text \<open>
  The keyword arguments that \<^verbatim>\<open>setup\<close> receives, when the argument list is well formed.
  The argument is what \<^verbatim>\<open>find_packages()\<close> returned. This is the argument list only:
  what the import and the two calls into setuptools do is \<open>run_setup_py\<close> below.
\<close>

definition setup_py :: "string list \<Rightarrow> error + kwargs" where
  "setup_py found =
     (case first_repeated (map fst (setup_kwargs found)) of
        Some k \<Rightarrow> Inl (RepeatedKeyword k)
      | None \<Rightarrow> Inr (setup_kwargs found))"

text \<open>Reading one field of the outcome; an error has no fields.\<close>

fun field :: "string \<Rightarrow> error + kwargs \<Rightarrow> pyval option" where
  "field k (Inl e) = None"
| "field k (Inr kws) = map_of kws k"

subsection \<open>Running the file\<close>








subsection \<open>Reading strings\<close>

text \<open>Python's \<^verbatim>\<open>str.split(sep)\<close> for a one-character separator.\<close>

fun split_on :: "char \<Rightarrow> string \<Rightarrow> string list" where
  "split_on d [] = [[]]"
| "split_on d (c # cs) =
     (if c = d then [] # split_on d cs
      else (case split_on d cs of
              [] \<Rightarrow> [[c]]
            | p # ps \<Rightarrow> (c # p) # ps))"

definition is_digit :: "char \<Rightarrow> bool" where
  "is_digit c = (48 \<le> (of_char c :: nat) \<and> (of_char c :: nat) \<le> 57)"

text \<open>
  MAJOR.MINOR.PATCH: split at the dots, exactly three parts, each part non-empty and made
  of decimal digits only.
\<close>

definition is_semver :: "string \<Rightarrow> bool" where
  "is_semver v =
     (let parts = split_on (CHR ''.'') v
      in length parts = 3 \<and> list_all (\<lambda>p. 0 < length p \<and> list_all is_digit p) parts)"

text \<open>ASCII lower case, as \<^verbatim>\<open>str.lower\<close> acts on the characters of a URL.\<close>

definition lower_char :: "char \<Rightarrow> char" where
  "lower_char c =
     (if 65 \<le> (of_char c :: nat) \<and> (of_char c :: nat) \<le> 90
      then char_of ((of_char c :: nat) + 32) else c)"

definition lower :: "string \<Rightarrow> string" where
  "lower s = map lower_char s"

text \<open>The last path segment: what follows the last slash.\<close>

definition last_segment :: "string \<Rightarrow> string" where
  "last_segment s = last (split_on (CHR ''/'') s)"

fun is_suffix :: "string \<Rightarrow> string \<Rightarrow> bool" where
  "is_suffix suf s = (length suf \<le> length s \<and> drop (length s - length suf) s = suf)"

text \<open>Python's \<^verbatim>\<open>str.removesuffix\<close>.\<close>

definition removesuffix :: "string \<Rightarrow> string \<Rightarrow> string" where
  "removesuffix suf s = (if is_suffix suf s then take (length s - length suf) s else s)"

section \<open>Properties\<close>

text \<open>
  C1: the manifest declares a non-empty package name and a non-empty version: both
  arguments are strings of length greater than zero, and they are what \<^verbatim>\<open>setup\<close> receives
  under the keywords \<^verbatim>\<open>name\<close> and \<^verbatim>\<open>version\<close>.
\<close>

theorem name_version_nonempty:
  "field ''name'' (setup_py found) = Some (Str name) \<and> 0 < length name \<and>
   field ''version'' (setup_py found) = Some (Str version) \<and> 0 < length version"
  by (simp add: setup_py_def setup_kwargs_def name_def version_def)

text \<open>
  C2: the version is a semantic version string MAJOR.MINOR.PATCH: split at the dots it has
  exactly three components, each non-empty and numeric, so it holds no other character.
\<close>

theorem version_is_semver: "is_semver version"
  by (simp add: is_semver_def version_def is_digit_def)

text \<open>
  C3: every element of \<^verbatim>\<open>setup_requires\<close> is a non-empty string; the list holds
  \<^verbatim>\<open>nltk\<close>, \<^verbatim>\<open>joblib\<close>, \<^verbatim>\<open>click\<close>, \<^verbatim>\<open>regex\<close> and \<^verbatim>\<open>sqlparse\<close>, and nothing besides these and
  \<^verbatim>\<open>setuptools\<close>; it is what \<^verbatim>\<open>setup\<close> receives under that keyword.
\<close>

theorem setup_requires_contents:
  "list_all (\<lambda>d. 0 < length d) setup_requires \<and>
   ''nltk'' \<in> set setup_requires \<and>
   ''joblib'' \<in> set setup_requires \<and>
   ''click'' \<in> set setup_requires \<and>
   ''regex'' \<in> set setup_requires \<and>
   ''sqlparse'' \<in> set setup_requires \<and>
   set setup_requires
     \<subseteq> {''nltk'', ''joblib'', ''click'', ''regex'', ''sqlparse'', ''setuptools''} \<and>
   field ''setup_requires'' (setup_py found) = Some (StrList setup_requires)"
  by (simp add: setup_requires_def setup_py_def setup_kwargs_def)

text \<open>
  C4: the call gives exactly the keywords \<^verbatim>\<open>name\<close>, \<^verbatim>\<open>version\<close>, \<^verbatim>\<open>description\<close>, \<^verbatim>\<open>author\<close>,
  \<^verbatim>\<open>author_email\<close>, \<^verbatim>\<open>url\<close>, \<^verbatim>\<open>packages\<close> and \<^verbatim>\<open>setup_requires\<close>, each once and no other;
  \<^verbatim>\<open>packages\<close> is the value of the package-discovery call and \<^verbatim>\<open>setup_requires\<close> a list of
  strings. In particular the keywords that would declare command-line entry points,
  scripts or data files are absent.
\<close>

theorem setup_keywords:
  "map fst (setup_kwargs found) =
     [''name'', ''version'', ''description'', ''author'', ''author_email'', ''url'',
      ''packages'', ''setup_requires''] \<and>
   map_of (setup_kwargs found) ''packages'' = Some (StrList found) \<and>
   map_of (setup_kwargs found) ''setup_requires'' = Some (StrList setup_requires) \<and>
   map_of (setup_kwargs found) ''entry_points'' = None \<and>
   map_of (setup_kwargs found) ''scripts'' = None \<and>
   map_of (setup_kwargs found) ''package_data'' = None \<and>
   map_of (setup_kwargs found) ''data_files'' = None"
  by (simp add: setup_kwargs_def packages_def)

text \<open>
  C5: the metadata does not depend on anything the evaluation reads. Whatever package
  discovery returns in two evaluations, both give the same name, version, description,
  author, author_email, url and dependency list, each of them present; apart from the
  \<^verbatim>\<open>packages\<close> entry the two argument lists are equal.
\<close>

theorem metadata_constant:
  "field ''name'' (setup_py f1) = field ''name'' (setup_py f2) \<and>
   field ''version'' (setup_py f1) = field ''version'' (setup_py f2) \<and>
   field ''description'' (setup_py f1) = field ''description'' (setup_py f2) \<and>
   field ''author'' (setup_py f1) = field ''author'' (setup_py f2) \<and>
   field ''author_email'' (setup_py f1) = field ''author_email'' (setup_py f2) \<and>
   field ''url'' (setup_py f1) = field ''url'' (setup_py f2) \<and>
   field ''setup_requires'' (setup_py f1) = field ''setup_requires'' (setup_py f2) \<and>
   field ''name'' (setup_py f1) = Some (Str name) \<and>
   field ''version'' (setup_py f1) = Some (Str version) \<and>
   field ''description'' (setup_py f1) = Some (Str description) \<and>
   field ''author'' (setup_py f1) = Some (Str author) \<and>
   field ''author_email'' (setup_py f1) = Some (Str author_email) \<and>
   field ''url'' (setup_py f1) = Some (Str url) \<and>
   field ''setup_requires'' (setup_py f1) = Some (StrList setup_requires) \<and>
   filter (\<lambda>kv. fst kv \<noteq> ''packages'') (setup_kwargs f1) =
     filter (\<lambda>kv. fst kv \<noteq> ''packages'') (setup_kwargs f2)"
  by (simp add: setup_py_def setup_kwargs_def)




text \<open>
  C10: the package name agrees with the contact URL: the last path segment of \<^verbatim>\<open>url\<close>,
  in lower case and without its \<^verbatim>\<open>.git\<close> suffix, is \<^verbatim>\<open>name\<close>.
\<close>

theorem name_matches_url: "removesuffix ''.git'' (lower (last_segment url)) = name"
  by code_simp

end
